theory Spec2Isabelle
  imports Main "HOL-Library.AList"
begin

section \<open>Python values, exceptions and the configuration module\<close>

text \<open>
  The values that flow through \<^verbatim>\<open>exhale/utils.py\<close>.  \<open>VStr\<close> is a value whose type is
  exactly \<^verbatim>\<open>str\<close>; every other constructor is a value of another type.
\<close>

datatype pyval = VNone | VBool bool | VInt int | VStr string | VList "pyval list"

text \<open>
  A raised exception: the name of its class and the text \<^verbatim>\<open>str(e)\<close> gives.  \<open>Exc\<close> is an
  instance of a class deriving from \<^verbatim>\<open>Exception\<close>, which \<^verbatim>\<open>except Exception\<close> catches;
  \<open>BaseExc\<close> is one deriving from \<^verbatim>\<open>BaseException\<close> only (\<^verbatim>\<open>KeyboardInterrupt\<close>,
  \<^verbatim>\<open>SystemExit\<close>, \<^verbatim>\<open>GeneratorExit\<close>), which it does not catch.
\<close>

datatype pyexc = Exc string string | BaseExc string string

text \<open>What one call of a user-supplied callable on a kind string does.\<close>

datatype outcome = Returns pyval | Raises pyexc

type_synonym behaviour = "string \<Rightarrow> outcome"

text \<open>
  The argument of \<^verbatim>\<open>makeCustomSpecificationsMapping\<close>: a plain function object
  (\<^verbatim>\<open>types.FunctionType\<close>, which cannot be subclassed), or an object of any other type,
  given by the text \<^verbatim>\<open>type(func)\<close> formats to and by what calling it would do when it is
  callable at all.
\<close>

datatype pyobj = Function behaviour | Object string "behaviour option"

text \<open>
  A dictionary with string keys, as the list of its items in insertion order.  Reading a
  key is \<open>map_of\<close>; the assignment \<^verbatim>\<open>d[k] = v\<close> is \<open>AList.update\<close>, which replaces the
  value of a key already present and appends a new key at the end.
\<close>

type_synonym pydict = "(string \<times> pyval) list"

text \<open>
  The module \<^verbatim>\<open>configs\<close> is not part of the sources at hand; the attributes that
  \<^verbatim>\<open>utils.py\<close> reads from it are taken as parameters.  \<open>closure_map_sanity_check\<close> stands
  for \<^verbatim>\<open>configs._closure_map_sanity_check\<close>, \<open>customSpecificationsMapping\<close> is
  \<^verbatim>\<open>None\<close> or a dictionary.
\<close>

record configs =
  closure_map_sanity_check :: string
  customSpecificationsMapping :: "pydict option"
  alwaysColorize :: bool
  doxygenOutputDirectory :: string
  verboseBuild :: bool

section \<open>The kinds and the custom specifications mapping\<close>

definition AVAILABLE_KINDS :: "string list" where
  "AVAILABLE_KINDS =
     [''class'', ''struct'', ''function'', ''enum'', ''enumvalue'', ''namespace'', ''define'',
      ''typedef'', ''variable'', ''file'', ''dir'', ''group'', ''union'']"

fun is_str :: "pyval \<Rightarrow> bool" where
  "is_str (VStr s) = True"
| "is_str v = False"

definition not_a_string_message :: "string \<Rightarrow> string" where
  "not_a_string_message kind =
     ''The custom specifications function did not return a string for input `'' @ kind @ ''`''"

definition not_a_function_message :: "string \<Rightarrow> string" where
  "not_a_function_message ty =
     ''The input to exhale.util.makeCustomSpecificationsMapping was *NOT* a function: '' @ ty"

definition unable_message :: "string \<Rightarrow> string" where
  "unable_message e = ''Unable to create custom specifications:'' @ [CHR 0x0A] @ e"

text \<open>
  The body of the \<^verbatim>\<open>for kind in AVAILABLE_KINDS\<close> loop, over the kinds still to visit.
  \<open>ret\<close> is the dictionary built so far and \<open>calls\<close> the kinds \<open>func\<close> has been invoked on,
  in order.  The loop stops at the first kind on which \<open>func\<close> raises or returns a value
  that is not a \<^verbatim>\<open>str\<close>.
\<close>

fun specs_loop ::
  "behaviour \<Rightarrow> string list \<Rightarrow> pydict \<Rightarrow> string list \<Rightarrow> (pyexc + pydict) \<times> string list" where
  "specs_loop func [] ret calls = (Inr ret, calls)"
| "specs_loop func (kind # kinds) ret calls =
     (case func kind of
        Raises e \<Rightarrow> (Inl e, calls @ [kind])
      | Returns specs \<Rightarrow>
          if \<not> is_str specs
          then (Inl (Exc ''RuntimeError'' (not_a_string_message kind)), calls @ [kind])
          else specs_loop func kinds (AList.update kind specs ret) (calls @ [kind]))"

text \<open>The handler \<^verbatim>\<open>except Exception as e\<close> around the loop.\<close>

fun wrap_exception :: "pyexc + 'a \<Rightarrow> pyexc + 'a" where
  "wrap_exception (Inl (Exc cls msg)) = Inl (Exc ''RuntimeError'' (unable_message msg))"
| "wrap_exception (Inl (BaseExc cls msg)) = Inl (BaseExc cls msg)"
| "wrap_exception (Inr r) = Inr r"

text \<open>
  \<^verbatim>\<open>makeCustomSpecificationsMapping(func)\<close>: the exception raised or the dictionary
  returned, together with the kinds \<open>func\<close> was invoked on.
\<close>

fun makeCustomSpecificationsMapping ::
  "configs \<Rightarrow> pyobj \<Rightarrow> (pyexc + pydict) \<times> string list" where
  "makeCustomSpecificationsMapping cfg (Object ty call) =
     (Inl (Exc ''ValueError'' (not_a_function_message ty)), [])"
| "makeCustomSpecificationsMapping cfg (Function func) =
     (let ret = [(closure_map_sanity_check cfg, VStr (closure_map_sanity_check cfg))];
          (r, calls) = specs_loop func AVAILABLE_KINDS ret []
      in (wrap_exception r, calls))"

section \<open>Kind classification\<close>

text \<open>
  \<^verbatim>\<open>str.capitalize\<close> on ASCII text: the first character in upper case, the rest in lower
  case.
\<close>

definition ascii_lowercase :: string where
  "ascii_lowercase = ''abcdefghijklmnopqrstuvwxyz''"

definition ascii_uppercase :: string where
  "ascii_uppercase = ''ABCDEFGHIJKLMNOPQRSTUVWXYZ''"

definition ascii_upper :: "char \<Rightarrow> char" where
  "ascii_upper c = (case map_of (zip ascii_lowercase ascii_uppercase) c of Some u \<Rightarrow> u | None \<Rightarrow> c)"

definition ascii_lower :: "char \<Rightarrow> char" where
  "ascii_lower c = (case map_of (zip ascii_uppercase ascii_lowercase) c of Some l \<Rightarrow> l | None \<Rightarrow> c)"

fun capitalize :: "string \<Rightarrow> string" where
  "capitalize [] = []"
| "capitalize (c # cs) = ascii_upper c # map ascii_lower cs"

definition qualifyKind :: "string \<Rightarrow> string" where
  "qualifyKind kind = (if kind = ''dir'' then ''Directory'' else capitalize kind)"

definition kindAsBreatheDirective :: "string \<Rightarrow> string" where
  "kindAsBreatheDirective kind = ''doxygen'' @ kind"

datatype lookup_error = KeyError string

text \<open>
  The test \<^verbatim>\<open>if configs.customSpecificationsMapping:\<close> is Python truthiness: \<^verbatim>\<open>None\<close> and
  the empty dictionary are false, a dictionary with an entry is true.
\<close>

fun truthy_mapping :: "pydict option \<Rightarrow> bool" where
  "truthy_mapping None = False"
| "truthy_mapping (Some m) = (m \<noteq> [])"

definition specificationsForKind :: "configs \<Rightarrow> string \<Rightarrow> lookup_error + pyval" where
  "specificationsForKind cfg kind =
     (if truthy_mapping (customSpecificationsMapping cfg)
      then (case map_of (the (customSpecificationsMapping cfg)) kind of
              None \<Rightarrow> Inl (KeyError kind)
            | Some v \<Rightarrow> Inr v)
      else if kind = ''class'' \<or> kind = ''struct''
      then Inr (VList [VStr '':members:'', VStr '':protected-members:'', VStr '':undoc-members:''])
      else Inr (VList []))"

section \<open>Reading a node's compound XML file\<close>

text \<open>
  A regular file: one that cannot be opened or read, with the exception that the attempt
  raises, or one that can, with the characters it holds.  (A file whose bytes do not decode
  is one whose read raises.)
\<close>

datatype regular_file = Unreadable pyexc | Readable string

text \<open>
  What the file system holds at a path: nothing, something that is not a regular file
  (\<^verbatim>\<open>os.path.isfile\<close> is false for both), or a regular file.
\<close>

datatype fs_entry = Absent | NotRegularFile | RegularFile regular_file

type_synonym filesystem = "string \<Rightarrow> fs_entry"

record node =
  refid :: string

text \<open>\<^verbatim>\<open>os.path.join\<close> of two components, as \<^verbatim>\<open>posixpath\<close> defines it.\<close>

definition path_join :: "string \<Rightarrow> string \<Rightarrow> string" where
  "path_join a b =
     (if b \<noteq> [] \<and> hd b = CHR ''/'' then b
      else if a = [] \<or> last a = CHR ''/'' then a @ b
      else a @ ''/'' @ b)"

fun isfile :: "fs_entry \<Rightarrow> bool" where
  "isfile (RegularFile r) = True"
| "isfile e = False"

text \<open>
  What reading in text mode gives for the characters of a file: \<^verbatim>\<open>open(path, "r")\<close> has
  universal newlines, so that each CR LF and each other CR is read as LF.
\<close>

fun universal_newlines :: "string \<Rightarrow> string" where
  "universal_newlines [] = []"
| "universal_newlines [c] = (if c = CHR 0x0D then [CHR 0x0A] else [c])"
| "universal_newlines (c # d # cs) =
     (if c = CHR 0x0D \<and> d = CHR 0x0A then CHR 0x0A # universal_newlines cs
      else if c = CHR 0x0D then CHR 0x0A # universal_newlines (d # cs)
      else c # universal_newlines (d # cs))"

text \<open>
  \<^verbatim>\<open>with open(path, "r") as xml: xml.read()\<close>: the text read, or the exception that opening,
  reading or closing raises.
\<close>

fun open_read :: "fs_entry \<Rightarrow> pyexc + string" where
  "open_read (RegularFile (Readable stored)) = Inr (universal_newlines stored)"
| "open_read (RegularFile (Unreadable e)) = Inl e"
| "open_read Absent = Inl (Exc ''FileNotFoundError'' [])"
| "open_read NotRegularFile = Inl (Exc ''OSError'' [])"

text \<open>
  The result is what the call raises (\<open>Inl\<close>) or returns (\<open>Inr\<close>), \<open>None\<close> being Python's
  \<^verbatim>\<open>None\<close>.  The bare \<^verbatim>\<open>except:\<close> catches every exception of the read.
\<close>

definition nodeCompoundXMLContents ::
  "configs \<Rightarrow> filesystem \<Rightarrow> node \<Rightarrow> pyexc + string option" where
  "nodeCompoundXMLContents cfg fs nd =
     (let node_xml_path = path_join (doxygenOutputDirectory cfg) (refid nd @ ''.xml'')
      in if isfile (fs node_xml_path)
         then (case open_read (fs node_xml_path) of
                 Inr node_xml_contents \<Rightarrow> Inr (Some node_xml_contents)
               | Inl e \<Rightarrow> Inr None)
         else Inr None)"

section \<open>Console helpers\<close>

text \<open>The formats of \<^verbatim>\<open>AnsiColors\<close> that the console helpers use as defaults.\<close>

definition BOLD :: string where "BOLD = ''1m''"
definition BOLD_RED :: string where "BOLD_RED = ''31;'' @ BOLD"
definition BOLD_GREEN :: string where "BOLD_GREEN = ''32;'' @ BOLD"
definition BOLD_BLUE :: string where "BOLD_BLUE = ''34;'' @ BOLD"

text \<open>
  \<^verbatim>\<open>str.splitlines(True)\<close>: the lines of a text, each with its line break kept.  The line
  boundaries are those of Python 3 that are ASCII characters: LF, VT, FF, CR, CR LF, FS,
  GS and RS.  \<open>cur\<close> is the line read so far.
\<close>

definition is_linebreak :: "char \<Rightarrow> bool" where
  "is_linebreak c = (c \<in> set [CHR 0x0A, CHR 0x0B, CHR 0x0C, CHR 0x0D, CHR 0x1C, CHR 0x1D, CHR 0x1E])"

fun splitlines_from :: "string \<Rightarrow> string \<Rightarrow> string list" where
  "splitlines_from cur [] = (if cur = [] then [] else [cur])"
| "splitlines_from cur [c] = [cur @ [c]]"
| "splitlines_from cur (c # d # cs) =
     (if c = CHR 0x0D \<and> d = CHR 0x0A then (cur @ [c, d]) # splitlines_from [] cs
      else if is_linebreak c then (cur @ [c]) # splitlines_from [] (d # cs)
      else splitlines_from (cur @ [c]) (d # cs))"

definition splitlines_keepends :: "string \<Rightarrow> string list" where
  "splitlines_keepends text = splitlines_from [] text"

text \<open>\<^verbatim>\<open>str.strip()\<close> with no argument removes leading and trailing whitespace.\<close>

definition is_space :: "char \<Rightarrow> bool" where
  "is_space c =
     (c \<in> set [CHR 0x09, CHR 0x0A, CHR 0x0B, CHR 0x0C, CHR 0x0D, CHR 0x1C, CHR 0x1D, CHR 0x1E,
               CHR 0x1F, CHR 0x20])"

definition strip :: "string \<Rightarrow> string" where
  "strip s = rev (dropWhile is_space (rev (dropWhile is_space s)))"

text \<open>
  \<^verbatim>\<open>indent(text, prefix, predicate=None)\<close>; with no predicate, a line is prefixed when
  \<^verbatim>\<open>line.strip()\<close> is a non-empty string.
\<close>

definition indent :: "string \<Rightarrow> string \<Rightarrow> (string \<Rightarrow> bool) option \<Rightarrow> string" where
  "indent text pre predicate =
     (let pred = (case predicate of None \<Rightarrow> (\<lambda>line. strip line \<noteq> []) | Some p \<Rightarrow> p)
      in concat (map (\<lambda>line. if pred line then pre @ line else line) (splitlines_keepends text)))"

text \<open>
  \<^verbatim>\<open>prefix(token, msg)\<close> of the source: \<^verbatim>\<open>indent\<close> with a predicate that is always true, so
  that empty lines get the token too.
\<close>

definition prefix_lines :: "string \<Rightarrow> string \<Rightarrow> string" where
  "prefix_lines token msg = indent msg token (Some (\<lambda>x. True))"

definition colorize :: "string \<Rightarrow> string \<Rightarrow> string" where
  "colorize msg ansi_fmt = [CHR 0x1B] @ ''['' @ ansi_fmt @ msg @ [CHR 0x1B] @ ''[0m''"

record stream =
  isatty :: bool

text \<open>The two standard streams of the interpreter, \<^verbatim>\<open>sys.stdout\<close> and \<^verbatim>\<open>sys.stderr\<close>.\<close>

record sys =
  stdout :: stream
  stderr :: stream

text \<open>\<^verbatim>\<open>_use_color(msg, ansi_fmt, output_stream)\<close> of the source.\<close>

definition use_color :: "configs \<Rightarrow> string \<Rightarrow> string \<Rightarrow> stream \<Rightarrow> string" where
  "use_color cfg msg ansi_fmt output_stream =
     (if \<not> alwaysColorize cfg \<and> \<not> isatty output_stream then msg else colorize msg ansi_fmt)"

text \<open>An argument of a call: left out, so that the default applies, or given.\<close>

datatype 'a arg = Omitted | Given 'a

fun arg_or :: "'a \<Rightarrow> 'a arg \<Rightarrow> 'a" where
  "arg_or d Omitted = d"
| "arg_or d (Given x) = x"

definition progress :: "configs \<Rightarrow> sys \<Rightarrow> string \<Rightarrow> string arg \<Rightarrow> stream arg \<Rightarrow> string" where
  "progress cfg sy msg ansi_fmt output_stream =
     use_color cfg (prefix_lines ''[+] '' msg) (arg_or BOLD_GREEN ansi_fmt)
       (arg_or (stdout sy) output_stream)"

definition info :: "configs \<Rightarrow> sys \<Rightarrow> string \<Rightarrow> string arg \<Rightarrow> stream arg \<Rightarrow> string" where
  "info cfg sy msg ansi_fmt output_stream =
     use_color cfg (prefix_lines ''[~] '' msg) (arg_or BOLD_BLUE ansi_fmt)
       (arg_or (stdout sy) output_stream)"

definition critical :: "configs \<Rightarrow> sys \<Rightarrow> string \<Rightarrow> string arg \<Rightarrow> stream arg \<Rightarrow> string" where
  "critical cfg sy msg ansi_fmt output_stream =
     use_color cfg (prefix_lines ''(!) '' msg) (arg_or BOLD_RED ansi_fmt)
       (arg_or (stderr sy) output_stream)"

section \<open>The fatal error reporter\<close>

text \<open>
  What the reporter reads from outside the module: what \<^verbatim>\<open>traceback.format_exc()\<close> gives
  for the exception in flight, and the \<^verbatim>\<open>pygments\<close> highlighter for the lexer \<^verbatim>\<open>py3tb\<close>
  and the formatter \<^verbatim>\<open>console\<close>, \<open>None\<close> when the import failed.
\<close>

record runtime =
  format_exc :: "pyexc + string"
  pygments :: "(string \<Rightarrow> pyexc + string) option"

text \<open>
  \<^verbatim>\<open>__fancy(text, "py3tb", "console")\<close> of the source: the highlighted text, or the text as it
  is when \<^verbatim>\<open>pygments\<close> is missing or raises.
\<close>

definition fancy :: "runtime \<Rightarrow> string \<Rightarrow> string" where
  "fancy rt text =
     (case pygments rt of
        Some highlight \<Rightarrow> (case highlight text of Inr highlighted \<Rightarrow> highlighted | Inl e \<Rightarrow> text)
      | None \<Rightarrow> text)"

definition fancyErrorString :: "runtime \<Rightarrow> string" where
  "fancyErrorString rt =
     (case format_exc rt of
        Inr err \<Rightarrow> fancy rt (err @ [CHR 0x0A])
      | Inl e \<Rightarrow> ''CRITICAL: could not extract traceback.format_exc!'')"

text \<open>
  A \<^verbatim>\<open>singleton_hook\<close> is a callable of no argument.  Its name identifies it in the log of
  invocations.  Its body returns, raises, or calls \<^verbatim>\<open>fancyError\<close> again (a re-entrant call,
  which never returns to the hook), with each of the two arguments left out or given.
\<close>

datatype hook = Hook string body
  and body = Return | Raise pyexc | Reenter "string option arg" hook_arg
  and hook_arg = HookOmitted | HookNone | HookGiven hook

text \<open>
  The state of the process that the reporter changes: the texts written to
  \<^verbatim>\<open>sys.stderr\<close>, the attribute \<^verbatim>\<open>fancyError.__defaults__\<close> (the values that arguments
  left out take), and the hooks invoked so far.
\<close>

record process =
  stderr_written :: "string list"
  fancyError_defaults :: "string option \<times> hook option"
  hooks_invoked :: "string list"

text \<open>
  How a call of \<^verbatim>\<open>fancyError\<close> ends: the process is gone with a status (\<^verbatim>\<open>os._exit\<close>), or
  an exception leaves the call.
\<close>

datatype ending = Exit int | Propagates pyexc

definition stderr_write :: "string \<Rightarrow> process \<Rightarrow> process" where
  "stderr_write s st = st\<lparr>stderr_written := stderr_written st @ [s]\<rparr>"

fun truthy_str :: "string option \<Rightarrow> bool" where
  "truthy_str None = False"
| "truthy_str (Some s) = (s \<noteq> [])"

fun hook_or :: "hook option \<Rightarrow> hook_arg \<Rightarrow> hook option" where
  "hook_or d HookOmitted = d"
| "hook_or d HookNone = None"
| "hook_or d (HookGiven h) = Some h"

definition hook_exception_message :: "string \<Rightarrow> string" where
  "hook_exception_message e = ''fancyError: `singleton_hook` caused exception: '' @ e"

text \<open>
  What follows the call \<^verbatim>\<open>singleton_hook()\<close>, by how the hook ended: it returned (\<open>None\<close>),
  the process is gone, or an exception came out of it, which \<^verbatim>\<open>except Exception\<close> reports
  when it catches it; then \<^verbatim>\<open>os._exit(1)\<close>.
\<close>

fun after_hook :: "configs \<Rightarrow> sys \<Rightarrow> ending option \<times> process \<Rightarrow> ending \<times> process" where
  "after_hook cfg sy (None, st) = (Exit 1, st)"
| "after_hook cfg sy (Some (Exit n), st) = (Exit n, st)"
| "after_hook cfg sy (Some (Propagates (Exc cls msg)), st) =
     (Exit 1, stderr_write (critical cfg sy (hook_exception_message msg) Omitted Omitted) st)"
| "after_hook cfg sy (Some (Propagates (BaseExc cls msg)), st) =
     (Propagates (BaseExc cls msg), st)"

function fancyError ::
  "configs \<Rightarrow> sys \<Rightarrow> runtime \<Rightarrow> process \<Rightarrow> string option arg \<Rightarrow> hook_arg \<Rightarrow> ending \<times> process"
  where
  "fancyError cfg sy rt st critical_msg_arg singleton_hook_arg =
     (let critical_msg = arg_or (fst (fancyError_defaults st)) critical_msg_arg;
          singleton_hook = hook_or (snd (fancyError_defaults st)) singleton_hook_arg;
          st1 = (if truthy_str critical_msg
                 then stderr_write (critical cfg sy (the critical_msg) Omitted Omitted) st
                 else st);
          st2 = stderr_write (fancyErrorString rt) st1
      in case singleton_hook of
           None \<Rightarrow> (Exit 1, st2)
         | Some (Hook name body) \<Rightarrow>
             (let st3 = st2\<lparr>fancyError_defaults := (None, None),
                           hooks_invoked := hooks_invoked st2 @ [name]\<rparr>
              in after_hook cfg sy
                   (case body of
                      Return \<Rightarrow> (None, st3)
                    | Raise e \<Rightarrow> (Some (Propagates e), st3)
                    | Reenter m h \<Rightarrow>
                        (case fancyError cfg sy rt st3 m h of (e, st4) \<Rightarrow> (Some e, st4)))))"
  by pat_completeness auto
termination
  apply (relation "measure (\<lambda>(cfg, sy, rt, st, m, h).
                     size_option size (hook_or (snd (fancyError_defaults st)) h))")
   apply simp
  apply clarsimp
  apply (drule sym)
  subgoal for st singleton_hook_arg name m h
    by (cases h) simp_all
  done

declare fancyError.simps [simp del]

section \<open>Notions of the specification and example inputs\<close>

text \<open>A text with its first character in upper case and the rest as it is.\<close>

fun first_char_capitalized :: "string \<Rightarrow> string" where
  "first_char_capitalized [] = []"
| "first_char_capitalized (c # cs) = ascii_upper c # cs"

text \<open>
  A configuration in which nothing is customised.  The marker and the output directory are
  sample values.
\<close>

definition default_configs :: configs where
  "default_configs =
     \<lparr>closure_map_sanity_check = ''blargh_BLARGH_blargh'', customSpecificationsMapping = None,
      alwaysColorize = False, doxygenOutputDirectory = ''doxyoutput/xml'', verboseBuild = False\<rparr>"

text \<open>
  An output directory with three entries: a compound file with Windows and old Macintosh line
  ends, a directory with the name of a compound file, and a compound file that may not be
  read.
\<close>

definition example_fs :: filesystem where
  "example_fs path =
     (if path = ''doxyoutput/xml/classfoo.xml''
      then RegularFile (Readable (''<doxygen>'' @ [CHR 0x0D, CHR 0x0A] @ ''</doxygen>'' @ [CHR 0x0D]))
      else if path = ''doxyoutput/xml/structbar.xml''
      then RegularFile (Readable ''<doxygen/>\<newline>'')
      else if path = ''doxyoutput/xml/dir_src.xml'' then NotRegularFile
      else if path = ''doxyoutput/xml/unionbaz.xml''
      then RegularFile (Unreadable (Exc ''PermissionError'' ''Permission denied''))
      else Absent)"

text \<open>The standard streams when neither is attached to a terminal.\<close>

definition sys_no_tty :: sys where
  "sys_no_tty = \<lparr>stdout = \<lparr>isatty = False\<rparr>, stderr = \<lparr>isatty = False\<rparr>\<rparr>"

text \<open>
  A call of the user's function that returns a \<^verbatim>\<open>str\<close>, and the value a call returns.
\<close>

fun returns_str :: "outcome \<Rightarrow> bool" where
  "returns_str (Returns v) = is_str v"
| "returns_str (Raises e) = False"

fun returned :: "outcome \<Rightarrow> pyval" where
  "returned (Returns v) = v"
| "returned (Raises e) = VNone"

text \<open>Whether a text occurs somewhere in another: a message names a kind when it contains it.\<close>

fun contains :: "string \<Rightarrow> string \<Rightarrow> bool" where
  "contains [] sub = (sub = [])"
| "contains (c # cs) sub = (take (length sub) (c # cs) = sub \<or> contains cs sub)"

text \<open>
  User functions.  The first is of the shape the documentation of \<^verbatim>\<open>specificationsForKind\<close>
  asks for; the others fail on one kind, by returning an integer, by raising an exception
  derived from \<^verbatim>\<open>Exception\<close>, or by raising one that is not.
\<close>

definition example_specs :: behaviour where
  "example_specs kind =
     (if kind = ''class'' \<or> kind = ''struct'' then Returns (VStr ''   :members:'')
      else Returns (VStr []))"

definition int_for_enum :: behaviour where
  "int_for_enum kind = (if kind = ''enum'' then Returns (VInt 5) else Returns (VStr []))"

definition raises_for_enum :: behaviour where
  "raises_for_enum kind =
     (if kind = ''enum'' then Raises (Exc ''ValueError'' ''boom'') else Returns (VStr []))"

definition interrupted_for_enum :: behaviour where
  "interrupted_for_enum kind =
     (if kind = ''enum'' then Raises (BaseExc ''KeyboardInterrupt'' []) else Returns (VStr []))"

definition raises_then_int :: behaviour where
  "raises_then_int kind =
     (if kind = ''class'' then Raises (Exc ''ValueError'' ''boom'')
      else if kind = ''struct'' then Returns (VInt 5)
      else Returns (VStr []))"

definition int_then_raises :: behaviour where
  "int_then_raises kind =
     (if kind = ''class'' then Returns (VInt 5)
      else if kind = ''struct'' then Raises (Exc ''ValueError'' ''boom'')
      else Returns (VStr []))"

definition interrupted :: behaviour where
  "interrupted kind = Raises (BaseExc ''KeyboardInterrupt'' [])"

text \<open>
  The exception, if any, that comes out of a hook invoked by \<^verbatim>\<open>fancyError\<close> and is not
  caught by its \<^verbatim>\<open>except Exception\<close>, and the ending of a call that this predicts.  A
  re-entrant call that leaves the hook out has no hook, the defaults having been reset.
\<close>

fun escaping :: "hook \<Rightarrow> pyexc option"
  and body_escaping :: "body \<Rightarrow> pyexc option"
  and arg_escaping :: "hook_arg \<Rightarrow> pyexc option" where
  "escaping (Hook name b) = body_escaping b"
| "body_escaping Return = None"
| "body_escaping (Raise (Exc cls msg)) = None"
| "body_escaping (Raise (BaseExc cls msg)) = Some (BaseExc cls msg)"
| "body_escaping (Reenter m h) = arg_escaping h"
| "arg_escaping HookOmitted = None"
| "arg_escaping HookNone = None"
| "arg_escaping (HookGiven h) = escaping h"

fun expected_ending :: "hook option \<Rightarrow> ending" where
  "expected_ending None = Exit 1"
| "expected_ending (Some hk) = (case escaping hk of None \<Rightarrow> Exit 1 | Some e \<Rightarrow> Propagates e)"

text \<open>
  The state once the message, if any, and the traceback are written, and the state in which
  the hook starts.
\<close>

definition reported :: "configs \<Rightarrow> sys \<Rightarrow> runtime \<Rightarrow> process \<Rightarrow> string option arg \<Rightarrow> process" where
  "reported cfg sy rt st critical_msg_arg =
     (let critical_msg = arg_or (fst (fancyError_defaults st)) critical_msg_arg
      in stderr_write (fancyErrorString rt)
           (if truthy_str critical_msg
            then stderr_write (critical cfg sy (the critical_msg) Omitted Omitted) st
            else st))"

definition hook_entry ::
  "configs \<Rightarrow> sys \<Rightarrow> runtime \<Rightarrow> process \<Rightarrow> string option arg \<Rightarrow> string \<Rightarrow> process" where
  "hook_entry cfg sy rt st critical_msg_arg name =
     (reported cfg sy rt st critical_msg_arg)
       \<lparr>fancyError_defaults := (None, None),
        hooks_invoked := hooks_invoked (reported cfg sy rt st critical_msg_arg) @ [name]\<rparr>"

text \<open>
  A process that has written nothing, a runtime without \<^verbatim>\<open>pygments\<close>, and three cleanup
  hooks: the first calls \<^verbatim>\<open>fancyError()\<close> again with no argument, the second calls it with a
  message and a hook, the third is interrupted.
\<close>

definition process_start :: process where
  "process_start = \<lparr>stderr_written = [], fancyError_defaults = (None, None), hooks_invoked = []\<rparr>"

definition runtime_plain :: runtime where
  "runtime_plain = \<lparr>format_exc = Inr ''Traceback (most recent call last):'', pygments = None\<rparr>"

definition cleanup_reenters :: hook where
  "cleanup_reenters = Hook ''cleanup'' (Reenter Omitted HookOmitted)"

definition cleanup_reenters_with_arguments :: hook where
  "cleanup_reenters_with_arguments =
     Hook ''cleanup'' (Reenter (Given (Some ''again'')) (HookGiven (Hook ''cleanup'' Return)))"

definition cleanup_interrupted :: hook where
  "cleanup_interrupted = Hook ''cleanup'' (Raise (BaseExc ''KeyboardInterrupt'' []))"

section \<open>Kind classification: properties\<close>

text \<open>
  Claim C8.  \<^verbatim>\<open>qualifyKind\<close> maps \<^verbatim>\<open>"dir"\<close> to \<^verbatim>\<open>"Directory"\<close>, and every other known kind to
  the kind with its first character in upper case.
\<close>

theorem qualifyKind_known_kinds:
  "qualifyKind ''dir'' = ''Directory'' \<and>
   (\<forall>kind\<in>set AVAILABLE_KINDS.
      kind \<noteq> ''dir'' \<longrightarrow> qualifyKind kind = first_char_capitalized kind)"
  by code_simp

theorem qualifyKind_known_kinds_witness:
  "''namespace'' \<in> set AVAILABLE_KINDS \<and> ''namespace'' \<noteq> ''dir'' \<and>
   qualifyKind ''namespace'' = ''Namespace''"
proof -
  have mem: "''namespace'' \<in> set AVAILABLE_KINDS"
    by (simp add: AVAILABLE_KINDS_def)
  have ne: "''namespace'' \<noteq> ''dir''"
    by simp
  have cap: "first_char_capitalized ''namespace'' = ''Namespace''"
    by code_simp
  have "qualifyKind ''namespace'' = first_char_capitalized ''namespace''"
    by (rule qualifyKind_known_kinds [THEN conjunct2, rule_format, OF mem ne])
  with mem ne cap show ?thesis
    by (simp only: simp_thms)
qed

text \<open>
  Claim C4.  When \<^verbatim>\<open>configs.customSpecificationsMapping\<close> does not hold a mapping (it is
  \<^verbatim>\<open>None\<close> or empty), \<^verbatim>\<open>specificationsForKind\<close> returns the three default modifiers, in
  their fixed order, for \<^verbatim>\<open>"class"\<close> and for \<^verbatim>\<open>"struct"\<close>, and the empty list for any other
  kind.
\<close>

theorem specificationsForKind_default:
  "\<not> truthy_mapping (customSpecificationsMapping cfg) \<Longrightarrow>
     specificationsForKind cfg ''class'' =
       Inr (VList [VStr '':members:'', VStr '':protected-members:'', VStr '':undoc-members:'']) \<and>
     specificationsForKind cfg ''struct'' =
       Inr (VList [VStr '':members:'', VStr '':protected-members:'', VStr '':undoc-members:'']) \<and>
     (\<forall>kind. kind \<noteq> ''class'' \<and> kind \<noteq> ''struct'' \<longrightarrow>
        specificationsForKind cfg kind = Inr (VList []))"
  by (simp add: specificationsForKind_def)

theorem specificationsForKind_default_witness:
  "\<not> truthy_mapping (customSpecificationsMapping default_configs) \<and>
   specificationsForKind default_configs ''class'' =
     Inr (VList [VStr '':members:'', VStr '':protected-members:'', VStr '':undoc-members:'']) \<and>
   specificationsForKind default_configs ''struct'' =
     Inr (VList [VStr '':members:'', VStr '':protected-members:'', VStr '':undoc-members:'']) \<and>
   ''union'' \<noteq> ''class'' \<and> ''union'' \<noteq> ''struct'' \<and>
   specificationsForKind default_configs ''union'' = Inr (VList [])"
proof -
  have h: "\<not> truthy_mapping (customSpecificationsMapping default_configs)"
    by (simp add: default_configs_def)
  from specificationsForKind_default [OF h] show ?thesis
    using h by simp
qed

text \<open>
  Claim C5.  When \<^verbatim>\<open>configs.customSpecificationsMapping\<close> holds a mapping (a dictionary with
  an entry, which is what the code tests), \<^verbatim>\<open>specificationsForKind\<close> returns the mapping's
  entry for every kind in it and raises \<^verbatim>\<open>KeyError\<close> for every kind not in it.
\<close>

theorem specificationsForKind_custom:
  "customSpecificationsMapping cfg = Some m \<Longrightarrow> m \<noteq> [] \<Longrightarrow>
     (\<forall>kind v. map_of m kind = Some v \<longrightarrow> specificationsForKind cfg kind = Inr v) \<and>
     (\<forall>kind. kind \<notin> fst ` set m \<longrightarrow> specificationsForKind cfg kind = Inl (KeyError kind))"
proof -
  assume reg: "customSpecificationsMapping cfg = Some m" and ne: "m \<noteq> []"
  have present: "specificationsForKind cfg kind = Inr v" if "map_of m kind = Some v" for kind v
    using that reg ne by (simp add: specificationsForKind_def)
  have absent: "specificationsForKind cfg kind = Inl (KeyError kind)"
    if "kind \<notin> fst ` set m" for kind
  proof -
    from that have "map_of m kind = None"
      by (simp add: map_of_eq_None_iff)
    then show ?thesis
      using reg ne by (simp add: specificationsForKind_def)
  qed
  from present absent show ?thesis
    by blast
qed

theorem specificationsForKind_custom_witness:
  "customSpecificationsMapping
     (default_configs\<lparr>customSpecificationsMapping := Some [(''class'', VStr ''   :members:'')]\<rparr>)
     = Some [(''class'', VStr ''   :members:'')] \<and>
   [(''class'', VStr ''   :members:'')] \<noteq> [] \<and>
   map_of [(''class'', VStr ''   :members:'')] ''class'' = Some (VStr ''   :members:'') \<and>
   specificationsForKind
     (default_configs\<lparr>customSpecificationsMapping := Some [(''class'', VStr ''   :members:'')]\<rparr>)
     ''class'' = Inr (VStr ''   :members:'') \<and>
   ''page'' \<notin> fst ` set [(''class'', VStr ''   :members:'')] \<and>
   specificationsForKind
     (default_configs\<lparr>customSpecificationsMapping := Some [(''class'', VStr ''   :members:'')]\<rparr>)
     ''page'' = Inl (KeyError ''page'')"
proof -
  let ?m = "[(''class'', VStr ''   :members:'')]"
  let ?cfg = "default_configs\<lparr>customSpecificationsMapping := Some ?m\<rparr>"
  have h1: "customSpecificationsMapping ?cfg = Some ?m" by simp
  have h2: "?m \<noteq> []" by simp
  have h3: "map_of ?m ''class'' = Some (VStr ''   :members:'')" by simp
  have h4: "''page'' \<notin> fst ` set ?m" by simp
  from specificationsForKind_custom [OF h1 h2] h3 h4 show ?thesis
    by simp
qed

section \<open>Console helpers: properties\<close>

lemma prefix_lines_three_lines:
  "prefix_lines ''[+] '' ''a\<newline>\<newline>b'' = ''[+] a\<newline>[+] \<newline>[+] b''"
  by code_simp

text \<open>
  Claim C7.  \<^verbatim>\<open>progress("a\n\nb")\<close>, with the default colour and any destination stream:
  when \<^verbatim>\<open>configs.alwaysColorize\<close> is set or the stream is a terminal, the result is the text
  with \<^verbatim>\<open>[+] \<close> in front of each of its three lines, the empty one included, between the
  escape sequence of bold green and the reset sequence; otherwise it is that prefixed text
  alone.
\<close>

theorem progress_three_lines:
  "(alwaysColorize cfg \<or> isatty (arg_or (stdout sy) output_stream) \<longrightarrow>
      progress cfg sy ''a\<newline>\<newline>b'' Omitted output_stream =
        [CHR 0x1B] @ ''[32;1m'' @ ''[+] a\<newline>[+] \<newline>[+] b'' @ [CHR 0x1B] @ ''[0m'') \<and>
   (\<not> alwaysColorize cfg \<and> \<not> isatty (arg_or (stdout sy) output_stream) \<longrightarrow>
      progress cfg sy ''a\<newline>\<newline>b'' Omitted output_stream = ''[+] a\<newline>[+] \<newline>[+] b'')"
  unfolding progress_def use_color_def prefix_lines_three_lines
  by (simp add: colorize_def BOLD_GREEN_def BOLD_def)

theorem progress_three_lines_witness:
  "(alwaysColorize (default_configs\<lparr>alwaysColorize := True\<rparr>) \<or>
      isatty (arg_or (stdout sys_no_tty) Omitted)) \<and>
   progress (default_configs\<lparr>alwaysColorize := True\<rparr>) sys_no_tty ''a\<newline>\<newline>b'' Omitted Omitted =
     [CHR 0x1B] @ ''[32;1m'' @ ''[+] a\<newline>[+] \<newline>[+] b'' @ [CHR 0x1B] @ ''[0m'' \<and>
   (\<not> alwaysColorize default_configs \<and> \<not> isatty (arg_or (stdout sys_no_tty) Omitted)) \<and>
   progress default_configs sys_no_tty ''a\<newline>\<newline>b'' Omitted Omitted = ''[+] a\<newline>[+] \<newline>[+] b''"
proof -
  let ?on = "default_configs\<lparr>alwaysColorize := True\<rparr>"
  have h1: "alwaysColorize ?on \<or> isatty (arg_or (stdout sys_no_tty) Omitted)"
    by simp
  have h2: "\<not> alwaysColorize default_configs \<and> \<not> isatty (arg_or (stdout sys_no_tty) Omitted)"
    by (simp add: default_configs_def sys_no_tty_def)
  note c1 = progress_three_lines [of ?on sys_no_tty Omitted, THEN conjunct1, rule_format, OF h1]
  note c2 = progress_three_lines
              [of default_configs sys_no_tty Omitted, THEN conjunct2, rule_format, OF h2]
  from h1 c1 h2 c2 show ?thesis
    by (simp only: simp_thms)
qed

section \<open>Reading a node's compound XML file: properties\<close>

lemma universal_newlines_no_CR:
  "CHR 0x0D \<notin> set stored \<Longrightarrow> universal_newlines stored = stored"
  by (induction stored rule: universal_newlines.induct) auto

text \<open>
  Claim C9, as stated, fails: the file is read in text mode, and what is returned for a file
  that holds CR LF or CR is not what the file holds.
\<close>

theorem exact_contents_counterexample:
  "example_fs ''doxyoutput/xml/classfoo.xml'' =
     RegularFile (Readable (''<doxygen>'' @ [CHR 0x0D, CHR 0x0A] @ ''</doxygen>'' @ [CHR 0x0D])) \<and>
   nodeCompoundXMLContents default_configs example_fs \<lparr>refid = ''classfoo''\<rparr> =
     Inr (Some ''<doxygen>\<newline></doxygen>\<newline>'') \<and>
   nodeCompoundXMLContents default_configs example_fs \<lparr>refid = ''classfoo''\<rparr> \<noteq>
     Inr (Some (''<doxygen>'' @ [CHR 0x0D, CHR 0x0A] @ ''</doxygen>'' @ [CHR 0x0D]))"
  by (simp add: nodeCompoundXMLContents_def default_configs_def example_fs_def path_join_def)

text \<open>
  Claim C9, amended.  For an output directory that is not the empty path and a refid that
  does not start with a slash, \<^verbatim>\<open>nodeCompoundXMLContents\<close> looks at \<^verbatim>\<open><refid>.xml\<close> in that
  directory and never raises.  It returns \<^verbatim>\<open>None\<close> when nothing is there, when what is there
  is not a regular file, and when opening or reading the file raises.  When the file can be
  read it returns the characters of the file with each CR LF and each other CR replaced by LF:
  the exact contents when the file holds no CR.
\<close>

theorem nodeCompoundXMLContents_result:
  assumes "doxygenOutputDirectory cfg \<noteq> []" and "take 1 (refid nd) \<noteq> ''/''"
  defines "path \<equiv> doxygenOutputDirectory cfg
                   @ (if last (doxygenOutputDirectory cfg) = CHR ''/'' then [] else ''/'')
                   @ refid nd @ ''.xml''"
  shows "(fs path = Absent \<longrightarrow> nodeCompoundXMLContents cfg fs nd = Inr None) \<and>
         (fs path = NotRegularFile \<longrightarrow> nodeCompoundXMLContents cfg fs nd = Inr None) \<and>
         (fs path = RegularFile (Unreadable e) \<longrightarrow> nodeCompoundXMLContents cfg fs nd = Inr None) \<and>
         (fs path = RegularFile (Readable stored) \<longrightarrow>
            nodeCompoundXMLContents cfg fs nd = Inr (Some (universal_newlines stored)) \<and>
            (CHR 0x0D \<notin> set stored \<longrightarrow> nodeCompoundXMLContents cfg fs nd = Inr (Some stored)))"
proof -
  from assms(2) have "refid nd @ ''.xml'' \<noteq> [] \<and> hd (refid nd @ ''.xml'') \<noteq> CHR ''/''"
    by (cases "refid nd") simp_all
  with assms(1) have "path_join (doxygenOutputDirectory cfg) (refid nd @ ''.xml'') = path"
    by (simp add: path_join_def path_def)
  then show ?thesis
    by (simp add: nodeCompoundXMLContents_def universal_newlines_no_CR)
qed

theorem nodeCompoundXMLContents_result_witness:
  "doxygenOutputDirectory default_configs \<noteq> [] \<and>
   take 1 ''structbar'' \<noteq> ''/'' \<and>
   example_fs ''doxyoutput/xml/structbar.xml'' = RegularFile (Readable ''<doxygen/>\<newline>'') \<and>
   CHR 0x0D \<notin> set ''<doxygen/>\<newline>'' \<and>
   nodeCompoundXMLContents default_configs example_fs \<lparr>refid = ''structbar''\<rparr> =
     Inr (Some ''<doxygen/>\<newline>'') \<and>
   take 1 ''classmissing'' \<noteq> ''/'' \<and>
   example_fs ''doxyoutput/xml/classmissing.xml'' = Absent \<and>
   nodeCompoundXMLContents default_configs example_fs \<lparr>refid = ''classmissing''\<rparr> = Inr None \<and>
   take 1 ''dir_src'' \<noteq> ''/'' \<and>
   example_fs ''doxyoutput/xml/dir_src.xml'' = NotRegularFile \<and>
   nodeCompoundXMLContents default_configs example_fs \<lparr>refid = ''dir_src''\<rparr> = Inr None \<and>
   take 1 ''unionbaz'' \<noteq> ''/'' \<and>
   example_fs ''doxyoutput/xml/unionbaz.xml'' =
     RegularFile (Unreadable (Exc ''PermissionError'' ''Permission denied'')) \<and>
   nodeCompoundXMLContents default_configs example_fs \<lparr>refid = ''unionbaz''\<rparr> = Inr None"
proof -
  have d: "doxygenOutputDirectory default_configs \<noteq> []"
    by (simp add: default_configs_def)
  have r1: "take 1 (refid \<lparr>refid = ''structbar''\<rparr>) \<noteq> ''/''"
    and r2: "take 1 (refid \<lparr>refid = ''classmissing''\<rparr>) \<noteq> ''/''"
    and r3: "take 1 (refid \<lparr>refid = ''dir_src''\<rparr>) \<noteq> ''/''"
    and r4: "take 1 (refid \<lparr>refid = ''unionbaz''\<rparr>) \<noteq> ''/''"
    by simp_all
  have f1: "example_fs ''doxyoutput/xml/structbar.xml'' = RegularFile (Readable ''<doxygen/>\<newline>'')"
    and f2: "example_fs ''doxyoutput/xml/classmissing.xml'' = Absent"
    and f3: "example_fs ''doxyoutput/xml/dir_src.xml'' = NotRegularFile"
    and f4: "example_fs ''doxyoutput/xml/unionbaz.xml'' =
               RegularFile (Unreadable (Exc ''PermissionError'' ''Permission denied''))"
    by (simp_all add: example_fs_def)
  have nocr: "CHR 0x0D \<notin> set ''<doxygen/>\<newline>''"
    by simp
  have c1: "nodeCompoundXMLContents default_configs example_fs \<lparr>refid = ''structbar''\<rparr> =
              Inr (Some ''<doxygen/>\<newline>'')"
    using nodeCompoundXMLContents_result
            [OF d r1, of example_fs _ "''<doxygen/>\<newline>''"] f1 nocr
    by (simp add: default_configs_def)
  have c2: "nodeCompoundXMLContents default_configs example_fs \<lparr>refid = ''classmissing''\<rparr> = Inr None"
    using nodeCompoundXMLContents_result [OF d r2, of example_fs] f2
    by (simp add: default_configs_def)
  have c3: "nodeCompoundXMLContents default_configs example_fs \<lparr>refid = ''dir_src''\<rparr> = Inr None"
    using nodeCompoundXMLContents_result [OF d r3, of example_fs] f3
    by (simp add: default_configs_def)
  have c4: "nodeCompoundXMLContents default_configs example_fs \<lparr>refid = ''unionbaz''\<rparr> = Inr None"
    using nodeCompoundXMLContents_result
            [OF d r4, of example_fs "Exc ''PermissionError'' ''Permission denied''"] f4
    by (simp add: default_configs_def)
  from d r1 r2 r3 r4 f1 f2 f3 f4 nocr c1 c2 c3 c4 show ?thesis
    by simp
qed

section \<open>The custom specifications mapping: properties\<close>

text \<open>
  Claim C10.  For an argument that is not a plain function, \<^verbatim>\<open>makeCustomSpecificationsMapping\<close>
  raises \<^verbatim>\<open>ValueError\<close> with a message that ends in the argument's type; the argument has not
  been invoked and no dictionary is produced.
\<close>

theorem makeCustomSpecificationsMapping_not_a_function:
  "makeCustomSpecificationsMapping cfg (Object ty call) =
     (Inl (Exc ''ValueError''
        (''The input to exhale.util.makeCustomSpecificationsMapping was *NOT* a function: '' @ ty)),
      [])"
  by (simp add: not_a_function_message_def)

text \<open>The loop when every call returns a string, and when a call fails.\<close>

lemma specs_loop_all_str:
  "\<forall>k\<in>set kinds. returns_str (func k) \<Longrightarrow>
     specs_loop func kinds ret calls =
       (Inr (fold (\<lambda>k. AList.update k (returned (func k))) kinds ret), calls @ kinds)"
proof (induction kinds arbitrary: ret calls)
  case Nil
  then show ?case by simp
next
  case (Cons kind kinds)
  from Cons.prems obtain v where v: "func kind = Returns v" "is_str v"
    by (cases "func kind") auto
  from Cons.prems have rest: "\<forall>k\<in>set kinds. returns_str (func k)"
    by simp
  show ?case
    using v Cons.IH [OF rest] by simp
qed

lemma specs_loop_first_failure:
  "\<forall>k\<in>set pre. returns_str (func k) \<Longrightarrow> \<not> returns_str (func kind) \<Longrightarrow>
     specs_loop func (pre @ kind # post) ret calls =
       ((case func kind of
           Raises e \<Rightarrow> Inl e
         | Returns v \<Rightarrow> Inl (Exc ''RuntimeError'' (not_a_string_message kind))),
        calls @ pre @ [kind])"
proof (induction pre arbitrary: ret calls)
  case Nil
  then show ?case
    by (cases "func kind") auto
next
  case (Cons p pre)
  from Cons.prems obtain v where v: "func p = Returns v" "is_str v"
    by (cases "func p") auto
  from Cons.prems have rest: "\<forall>k\<in>set pre. returns_str (func k)"
    by simp
  show ?case
    using v Cons.IH [OF rest Cons.prems(2)] by simp
qed

lemma keys_fold_update:
  "fst ` set (fold (\<lambda>k. AList.update k (f k)) kinds ret) = fst ` set ret \<union> set kinds"
  by (induction kinds arbitrary: ret) (auto simp: dom_update)

lemma distinct_fold_update:
  "distinct (map fst ret) \<Longrightarrow> distinct (map fst (fold (\<lambda>k. AList.update k (f k)) kinds ret))"
  by (induction kinds arbitrary: ret) (simp_all add: distinct_update)

lemma map_of_fold_update:
  "distinct kinds \<Longrightarrow> map_of (fold (\<lambda>k. AList.update k (f k)) kinds ret) key =
     (if key \<in> set kinds then Some (f key) else map_of ret key)"
  by (induction kinds arbitrary: ret) (auto simp: update_conv')

lemma fold_update_fresh:
  "distinct kinds \<Longrightarrow> set kinds \<inter> fst ` set ret = {} \<Longrightarrow>
     fold (\<lambda>k. AList.update k (f k)) kinds ret = ret @ map (\<lambda>k. (k, f k)) kinds"
proof (induction kinds arbitrary: ret)
  case Nil
  then show ?case by simp
next
  case (Cons k kinds)
  have "AList.update k (f k) ret = ret @ [(k, f k)]"
    using Cons.prems(2) by (induction ret) auto
  moreover have "set kinds \<inter> fst ` set (ret @ [(k, f k)]) = {}"
    using Cons.prems by auto
  ultimately show ?case
    using Cons.IH [of "ret @ [(k, f k)]"] Cons.prems(1) by simp
qed

lemma AVAILABLE_KINDS_distinct: "length AVAILABLE_KINDS = 13 \<and> distinct AVAILABLE_KINDS"
  by (simp add: AVAILABLE_KINDS_def)

text \<open>
  Claim C1.  When the function returns a \<^verbatim>\<open>str\<close> for each of the 13 known kinds,
  \<^verbatim>\<open>makeCustomSpecificationsMapping\<close> returns a dictionary, after one call per kind in the
  order of \<^verbatim>\<open>AVAILABLE_KINDS\<close>.  Its keys are distinct: the known kinds, each with what the
  function returned for it, and the sanity-check marker.  With a marker that is not itself a
  kind, the dictionary is the marker's entry followed by one entry per kind.
\<close>

theorem makeCustomSpecificationsMapping_all_strings:
  assumes strs: "\<forall>kind\<in>set AVAILABLE_KINDS. returns_str (func kind)"
  shows "\<exists>m. makeCustomSpecificationsMapping cfg (Function func) = (Inr m, AVAILABLE_KINDS) \<and>
           length AVAILABLE_KINDS = 13 \<and> distinct AVAILABLE_KINDS \<and>
           distinct (map fst m) \<and>
           fst ` set m = insert (closure_map_sanity_check cfg) (set AVAILABLE_KINDS) \<and>
           (\<forall>kind\<in>set AVAILABLE_KINDS. map_of m kind = Some (returned (func kind))) \<and>
           (closure_map_sanity_check cfg \<notin> set AVAILABLE_KINDS \<longrightarrow>
              m = (closure_map_sanity_check cfg, VStr (closure_map_sanity_check cfg))
                    # map (\<lambda>kind. (kind, returned (func kind))) AVAILABLE_KINDS)"
proof -
  let ?marker = "closure_map_sanity_check cfg"
  let ?ret = "[(?marker, VStr ?marker)]"
  let ?m = "fold (\<lambda>k. AList.update k (returned (func k))) AVAILABLE_KINDS ?ret"
  have run: "makeCustomSpecificationsMapping cfg (Function func) = (Inr ?m, AVAILABLE_KINDS)"
    by (simp add: specs_loop_all_str [OF strs])
  have dist: "distinct (map fst ?m)"
    by (rule distinct_fold_update) simp
  have keys: "fst ` set ?m = insert ?marker (set AVAILABLE_KINDS)"
    by (simp add: keys_fold_update)
  have vals: "\<forall>kind\<in>set AVAILABLE_KINDS. map_of ?m kind = Some (returned (func kind))"
    using AVAILABLE_KINDS_distinct by (simp add: map_of_fold_update)
  have fresh: "?m = (?marker, VStr ?marker) # map (\<lambda>kind. (kind, returned (func kind))) AVAILABLE_KINDS"
    if "?marker \<notin> set AVAILABLE_KINDS"
    using fold_update_fresh [of AVAILABLE_KINDS ?ret "\<lambda>k. returned (func k)"] that
      AVAILABLE_KINDS_distinct by simp
  from run dist keys vals fresh AVAILABLE_KINDS_distinct show ?thesis
    by (intro exI [of _ ?m] conjI impI) simp_all
qed

theorem makeCustomSpecificationsMapping_all_strings_witness:
  "list_all (\<lambda>kind. returns_str (example_specs kind)) AVAILABLE_KINDS \<and>
   makeCustomSpecificationsMapping default_configs (Function example_specs) =
     (Inr [(''blargh_BLARGH_blargh'', VStr ''blargh_BLARGH_blargh''),
           (''class'', VStr ''   :members:''), (''struct'', VStr ''   :members:''),
           (''function'', VStr []), (''enum'', VStr []), (''enumvalue'', VStr []),
           (''namespace'', VStr []), (''define'', VStr []), (''typedef'', VStr []),
           (''variable'', VStr []), (''file'', VStr []), (''dir'', VStr []),
           (''group'', VStr []), (''union'', VStr [])],
      AVAILABLE_KINDS)"
proof -
  have h: "\<forall>kind\<in>set AVAILABLE_KINDS. returns_str (example_specs kind)"
    by (simp add: AVAILABLE_KINDS_def example_specs_def)
  have fresh: "closure_map_sanity_check default_configs \<notin> set AVAILABLE_KINDS"
    by (simp add: default_configs_def AVAILABLE_KINDS_def)
  from makeCustomSpecificationsMapping_all_strings [OF h, of default_configs]
  obtain m where m:
    "makeCustomSpecificationsMapping default_configs (Function example_specs) = (Inr m, AVAILABLE_KINDS)"
    "closure_map_sanity_check default_configs \<notin> set AVAILABLE_KINDS \<longrightarrow>
       m = (closure_map_sanity_check default_configs, VStr (closure_map_sanity_check default_configs))
             # map (\<lambda>kind. (kind, returned (example_specs kind))) AVAILABLE_KINDS"
    by (elim exE conjE)
  from m(2) fresh
  have "m = (closure_map_sanity_check default_configs, VStr (closure_map_sanity_check default_configs))
             # map (\<lambda>kind. (kind, returned (example_specs kind))) AVAILABLE_KINDS"
    by (rule mp)
  then have "m = [(''blargh_BLARGH_blargh'', VStr ''blargh_BLARGH_blargh''),
           (''class'', VStr ''   :members:''), (''struct'', VStr ''   :members:''),
           (''function'', VStr []), (''enum'', VStr []), (''enumvalue'', VStr []),
           (''namespace'', VStr []), (''define'', VStr []), (''typedef'', VStr []),
           (''variable'', VStr []), (''file'', VStr []), (''dir'', VStr []),
           (''group'', VStr []), (''union'', VStr [])]"
    by (simp add: default_configs_def AVAILABLE_KINDS_def example_specs_def)
  with m(1) h show ?thesis
    by (simp only: list_all_iff simp_thms)
qed

text \<open>
  Claim C2, as stated, fails: the loop stops at the first kind on which the function fails.
  A function that raises on \<^verbatim>\<open>"class"\<close> and returns an integer for \<^verbatim>\<open>"struct"\<close> gives an error
  whose message is about the exception and does not name \<^verbatim>\<open>"struct"\<close>.
\<close>

theorem names_offending_kind_counterexample:
  "''struct'' \<in> set AVAILABLE_KINDS \<and>
   raises_then_int ''struct'' = Returns (VInt 5) \<and> \<not> is_str (VInt 5) \<and>
   makeCustomSpecificationsMapping default_configs (Function raises_then_int) =
     (Inl (Exc ''RuntimeError'' ''Unable to create custom specifications:\<newline>boom''), [''class'']) \<and>
   \<not> contains ''Unable to create custom specifications:\<newline>boom'' ''struct''"
proof -
  have "\<not> contains ''Unable to create custom specifications:\<newline>boom'' ''struct''"
    by code_simp
  moreover have "makeCustomSpecificationsMapping default_configs (Function raises_then_int) =
     (Inl (Exc ''RuntimeError'' ''Unable to create custom specifications:\<newline>boom''), [''class''])"
    by (simp add: AVAILABLE_KINDS_def raises_then_int_def unable_message_def)
  ultimately show ?thesis
    by (simp add: AVAILABLE_KINDS_def raises_then_int_def)
qed

text \<open>
  Claim C2, amended.  When the function returns a value that is not a \<^verbatim>\<open>str\<close> for a known
  kind and returns a \<^verbatim>\<open>str\<close> for every kind before it in \<^verbatim>\<open>AVAILABLE_KINDS\<close>,
  \<^verbatim>\<open>makeCustomSpecificationsMapping\<close> raises \<^verbatim>\<open>RuntimeError\<close> with a message that names that
  kind, and the function is not invoked on any later kind.
\<close>

theorem makeCustomSpecificationsMapping_first_non_string:
  assumes "AVAILABLE_KINDS = pre @ kind # post"
    and "\<forall>k\<in>set pre. returns_str (func k)"
    and "func kind = Returns v" and "\<not> is_str v"
  shows "makeCustomSpecificationsMapping cfg (Function func) =
           (Inl (Exc ''RuntimeError''
              (''Unable to create custom specifications:\<newline>'' @
               ''The custom specifications function did not return a string for input `'' @
               kind @ ''`'')),
            pre @ [kind])"
proof -
  from assms(3,4) have bad: "\<not> returns_str (func kind)"
    by simp
  show ?thesis
    using specs_loop_first_failure [OF assms(2) bad, of post] assms(1,3)
    by (simp add: unable_message_def not_a_string_message_def)
qed

theorem makeCustomSpecificationsMapping_first_non_string_witness:
  "AVAILABLE_KINDS = [''class'', ''struct'', ''function''] @ ''enum'' #
     [''enumvalue'', ''namespace'', ''define'', ''typedef'', ''variable'', ''file'', ''dir'',
      ''group'', ''union''] \<and>
   list_all (\<lambda>k. returns_str (int_for_enum k)) [''class'', ''struct'', ''function''] \<and>
   int_for_enum ''enum'' = Returns (VInt 5) \<and> \<not> is_str (VInt 5) \<and>
   makeCustomSpecificationsMapping default_configs (Function int_for_enum) =
     (Inl (Exc ''RuntimeError''
        (''Unable to create custom specifications:\<newline>'' @
         ''The custom specifications function did not return a string for input `'' @
         ''enum'' @ ''`'')),
      [''class'', ''struct'', ''function''] @ [''enum''])"
proof -
  have h1: "AVAILABLE_KINDS = [''class'', ''struct'', ''function''] @ ''enum'' #
     [''enumvalue'', ''namespace'', ''define'', ''typedef'', ''variable'', ''file'', ''dir'',
      ''group'', ''union'']"
    by (simp add: AVAILABLE_KINDS_def)
  have h2: "\<forall>k\<in>set [''class'', ''struct'', ''function'']. returns_str (int_for_enum k)"
    by (simp add: int_for_enum_def)
  have h3: "int_for_enum ''enum'' = Returns (VInt 5)"
    by (simp add: int_for_enum_def)
  have h4: "\<not> is_str (VInt 5)"
    by simp
  note r = makeCustomSpecificationsMapping_first_non_string [OF h1 h2 h3 h4, of default_configs]
  from h1 h2 h3 h4 r show ?thesis
    by (simp only: list_all_iff simp_thms)
qed

text \<open>
  Claim C3, as stated, fails.  A function that returns an integer for \<^verbatim>\<open>"class"\<close> and would
  raise on \<^verbatim>\<open>"struct"\<close> gives an error about \<^verbatim>\<open>"class"\<close> that does not include the
  exception's message; and \<^verbatim>\<open>KeyboardInterrupt\<close>, which \<^verbatim>\<open>except Exception\<close> does not catch,
  leaves the call as it is, not wrapped.
\<close>

theorem wraps_original_message_counterexample:
  "''struct'' \<in> set AVAILABLE_KINDS \<and>
   int_then_raises ''struct'' = Raises (Exc ''ValueError'' ''boom'') \<and>
   makeCustomSpecificationsMapping default_configs (Function int_then_raises) =
     (Inl (Exc ''RuntimeError''
        (''Unable to create custom specifications:\<newline>'' @
         ''The custom specifications function did not return a string for input `class`'')),
      [''class'']) \<and>
   \<not> contains (''Unable to create custom specifications:\<newline>'' @
         ''The custom specifications function did not return a string for input `class`'') ''boom'' \<and>
   ''class'' \<in> set AVAILABLE_KINDS \<and>
   interrupted ''class'' = Raises (BaseExc ''KeyboardInterrupt'' []) \<and>
   makeCustomSpecificationsMapping default_configs (Function interrupted) =
     (Inl (BaseExc ''KeyboardInterrupt'' []), [''class''])"
proof -
  have "\<not> contains (''Unable to create custom specifications:\<newline>'' @
         ''The custom specifications function did not return a string for input `class`'') ''boom''"
    by code_simp
  moreover have "makeCustomSpecificationsMapping default_configs (Function int_then_raises) =
     (Inl (Exc ''RuntimeError''
        (''Unable to create custom specifications:\<newline>'' @
         ''The custom specifications function did not return a string for input `class`'')),
      [''class''])"
    by (simp add: AVAILABLE_KINDS_def int_then_raises_def unable_message_def
        not_a_string_message_def)
  moreover have "makeCustomSpecificationsMapping default_configs (Function interrupted) =
     (Inl (BaseExc ''KeyboardInterrupt'' []), [''class''])"
    by (simp add: AVAILABLE_KINDS_def interrupted_def)
  ultimately show ?thesis
    by (simp add: AVAILABLE_KINDS_def int_then_raises_def interrupted_def)
qed

text \<open>
  Claim C3, amended.  When the function raises on a known kind and returns a \<^verbatim>\<open>str\<close> for
  every kind before it in \<^verbatim>\<open>AVAILABLE_KINDS\<close>: an exception derived from \<^verbatim>\<open>Exception\<close> is
  replaced by a \<^verbatim>\<open>RuntimeError\<close> whose message ends with the original message; any other
  exception leaves the call unchanged.
\<close>

theorem makeCustomSpecificationsMapping_first_raise:
  assumes "AVAILABLE_KINDS = pre @ kind # post"
    and "\<forall>k\<in>set pre. returns_str (func k)"
  shows "(func kind = Raises (Exc cls msg) \<longrightarrow>
            makeCustomSpecificationsMapping cfg (Function func) =
              (Inl (Exc ''RuntimeError'' (''Unable to create custom specifications:\<newline>'' @ msg)),
               pre @ [kind])) \<and>
         (func kind = Raises (BaseExc cls msg) \<longrightarrow>
            makeCustomSpecificationsMapping cfg (Function func) =
              (Inl (BaseExc cls msg), pre @ [kind]))"
proof (intro conjI impI)
  assume r: "func kind = Raises (Exc cls msg)"
  then have bad: "\<not> returns_str (func kind)"
    by simp
  show "makeCustomSpecificationsMapping cfg (Function func) =
          (Inl (Exc ''RuntimeError'' (''Unable to create custom specifications:\<newline>'' @ msg)),
           pre @ [kind])"
    using specs_loop_first_failure [OF assms(2) bad, of post] assms(1) r
    by (simp add: unable_message_def)
next
  assume r: "func kind = Raises (BaseExc cls msg)"
  then have bad: "\<not> returns_str (func kind)"
    by simp
  show "makeCustomSpecificationsMapping cfg (Function func) = (Inl (BaseExc cls msg), pre @ [kind])"
    using specs_loop_first_failure [OF assms(2) bad, of post] assms(1) r
    by simp
qed

theorem makeCustomSpecificationsMapping_first_raise_witness:
  "AVAILABLE_KINDS = [''class'', ''struct'', ''function''] @ ''enum'' #
     [''enumvalue'', ''namespace'', ''define'', ''typedef'', ''variable'', ''file'', ''dir'',
      ''group'', ''union''] \<and>
   list_all (\<lambda>k. returns_str (raises_for_enum k)) [''class'', ''struct'', ''function''] \<and>
   raises_for_enum ''enum'' = Raises (Exc ''ValueError'' ''boom'') \<and>
   makeCustomSpecificationsMapping default_configs (Function raises_for_enum) =
     (Inl (Exc ''RuntimeError'' (''Unable to create custom specifications:\<newline>'' @ ''boom'')),
      [''class'', ''struct'', ''function''] @ [''enum'']) \<and>
   list_all (\<lambda>k. returns_str (interrupted_for_enum k)) [''class'', ''struct'', ''function''] \<and>
   interrupted_for_enum ''enum'' = Raises (BaseExc ''KeyboardInterrupt'' []) \<and>
   makeCustomSpecificationsMapping default_configs (Function interrupted_for_enum) =
     (Inl (BaseExc ''KeyboardInterrupt'' []), [''class'', ''struct'', ''function''] @ [''enum''])"
proof -
  have h1: "AVAILABLE_KINDS = [''class'', ''struct'', ''function''] @ ''enum'' #
     [''enumvalue'', ''namespace'', ''define'', ''typedef'', ''variable'', ''file'', ''dir'',
      ''group'', ''union'']"
    by (simp add: AVAILABLE_KINDS_def)
  have h2: "\<forall>k\<in>set [''class'', ''struct'', ''function'']. returns_str (raises_for_enum k)"
    by (simp add: raises_for_enum_def)
  have h3: "raises_for_enum ''enum'' = Raises (Exc ''ValueError'' ''boom'')"
    by (simp add: raises_for_enum_def)
  have k2: "\<forall>k\<in>set [''class'', ''struct'', ''function'']. returns_str (interrupted_for_enum k)"
    by (simp add: interrupted_for_enum_def)
  have k3: "interrupted_for_enum ''enum'' = Raises (BaseExc ''KeyboardInterrupt'' [])"
    by (simp add: interrupted_for_enum_def)
  note r1 = makeCustomSpecificationsMapping_first_raise
              [OF h1 h2, of "''ValueError''" "''boom''" default_configs, THEN conjunct1, rule_format, OF h3]
  note r2 = makeCustomSpecificationsMapping_first_raise
              [OF h1 k2, of "''KeyboardInterrupt''" "[]" default_configs, THEN conjunct2, rule_format,
               OF k3]
  from h1 h2 h3 r1 k2 k3 r2 show ?thesis
    by (simp only: list_all_iff simp_thms)
qed

section \<open>The fatal error reporter: properties\<close>

lemma fancyError_no_hook:
  "hook_or (snd (fancyError_defaults st)) h = None \<Longrightarrow>
     fancyError cfg sy rt st m h = (Exit 1, reported cfg sy rt st m)"
  by (subst fancyError.simps) (simp add: Let_def reported_def)

lemma fancyError_with_hook:
  "hook_or (snd (fancyError_defaults st)) h = Some (Hook name b) \<Longrightarrow>
     fancyError cfg sy rt st m h =
       after_hook cfg sy
         (case b of
            Return \<Rightarrow> (None, hook_entry cfg sy rt st m name)
          | Raise e \<Rightarrow> (Some (Propagates e), hook_entry cfg sy rt st m name)
          | Reenter m' h' \<Rightarrow>
              (case fancyError cfg sy rt (hook_entry cfg sy rt st m name) m' h' of
                 (e, st4) \<Rightarrow> (Some e, st4)))"
  by (subst fancyError.simps) (cases b; simp add: Let_def reported_def hook_entry_def)

lemma fancyError_induct_hooks [case_names call]:
  assumes "\<And>cfg sy rt st m h.
             (\<And>name m' h'. hook_or (snd (fancyError_defaults st)) h = Some (Hook name (Reenter m' h'))
                \<Longrightarrow> P cfg sy rt (hook_entry cfg sy rt st m name) m' h')
             \<Longrightarrow> P cfg sy rt st m h"
  shows "P cfg sy rt st m h"
proof (induction cfg sy rt st m h rule: fancyError.induct)
  case (1 cfg sy rt st m h)
  show ?case
  proof (rule assms)
    fix name m' h'
    assume hk: "hook_or (snd (fancyError_defaults st)) h = Some (Hook name (Reenter m' h'))"
    have "P cfg sy rt
            ((stderr_write (fancyErrorString rt)
               (if truthy_str (arg_or (fst (fancyError_defaults st)) m)
                then stderr_write
                       (critical cfg sy (the (arg_or (fst (fancyError_defaults st)) m)) Omitted Omitted) st
                else st))
             \<lparr>fancyError_defaults := (None, None),
              hooks_invoked :=
                hooks_invoked
                  (stderr_write (fancyErrorString rt)
                    (if truthy_str (arg_or (fst (fancyError_defaults st)) m)
                     then stderr_write
                            (critical cfg sy (the (arg_or (fst (fancyError_defaults st)) m)) Omitted Omitted) st
                     else st)) @ [name]\<rparr>)
            m' h'"
      by (rule "1.IH" [OF refl refl refl refl hk refl refl refl])
    then show "P cfg sy rt (hook_entry cfg sy rt st m name) m' h'"
      by (simp add: hook_entry_def reported_def Let_def)
  qed
qed

lemma defaults_hook_entry [simp]:
  "fancyError_defaults (hook_entry cfg sy rt st m name) = (None, None)"
  by (simp add: hook_entry_def)

lemma defaults_reported [simp]:
  "fancyError_defaults (reported cfg sy rt st m) = fancyError_defaults st"
  by (simp add: reported_def Let_def stderr_write_def)

lemma defaults_after_hook [simp]:
  "fancyError_defaults (snd (after_hook cfg sy (r, st))) = fancyError_defaults st"
  by (cases "(cfg, sy, (r, st))" rule: after_hook.cases) (simp_all add: stderr_write_def)

lemma fst_after_hook:
  "fst (after_hook cfg sy (r, st)) =
     (case r of None \<Rightarrow> Exit 1 | Some (Exit n) \<Rightarrow> Exit n
      | Some (Propagates (Exc cls msg)) \<Rightarrow> Exit 1
      | Some (Propagates (BaseExc cls msg)) \<Rightarrow> Propagates (BaseExc cls msg))"
  by (cases "(cfg, sy, (r, st))" rule: after_hook.cases) simp_all

lemma fancyError_defaults_after:
  "fancyError_defaults (snd (fancyError cfg sy rt st m h)) =
     (if hook_or (snd (fancyError_defaults st)) h = None then fancyError_defaults st
      else (None, None))"
proof (induction cfg sy rt st m h rule: fancyError_induct_hooks)
  case (call cfg sy rt st m h)
  show ?case
  proof (cases "hook_or (snd (fancyError_defaults st)) h")
    case None
    then show ?thesis
      by (simp add: fancyError_no_hook)
  next
    case (Some hk)
    obtain name b where hk: "hk = Hook name b"
      by (cases hk)
    show ?thesis
    proof (cases b)
      case Return
      with Some hk show ?thesis
        by (simp add: fancyError_with_hook)
    next
      case (Raise e)
      with Some hk show ?thesis
        by (simp add: fancyError_with_hook)
    next
      case (Reenter m' h')
      with Some hk have eq: "hook_or (snd (fancyError_defaults st)) h = Some (Hook name (Reenter m' h'))"
        by simp
      obtain e st4 where run: "fancyError cfg sy rt (hook_entry cfg sy rt st m name) m' h' = (e, st4)"
        by (cases "fancyError cfg sy rt (hook_entry cfg sy rt st m name) m' h'")
      from call [OF eq] run have "fancyError_defaults st4 = (None, None)"
        by simp
      then show ?thesis
        using eq run by (simp add: fancyError_with_hook)
    qed
  qed
qed

lemma escaping_BaseExc:
  "escaping hk = Some e \<Longrightarrow> \<exists>cls msg. e = BaseExc cls msg"
  "body_escaping b = Some e \<Longrightarrow> \<exists>cls msg. e = BaseExc cls msg"
  "arg_escaping h = Some e \<Longrightarrow> \<exists>cls msg. e = BaseExc cls msg"
  by (induction hk and b and h rule: escaping_body_escaping_arg_escaping.induct) auto

lemma fancyError_ending:
  "fst (fancyError cfg sy rt st m h) = expected_ending (hook_or (snd (fancyError_defaults st)) h)"
proof (induction cfg sy rt st m h rule: fancyError_induct_hooks)
  case (call cfg sy rt st m h)
  show ?case
  proof (cases "hook_or (snd (fancyError_defaults st)) h")
    case None
    then show ?thesis
      by (simp add: fancyError_no_hook)
  next
    case (Some hk)
    obtain name b where hk: "hk = Hook name b"
      by (cases hk)
    show ?thesis
    proof (cases b)
      case Return
      with Some hk show ?thesis
        by (simp add: fancyError_with_hook)
    next
      case (Raise e)
      with Some hk show ?thesis
        by (cases e) (simp_all add: fancyError_with_hook)
    next
      case (Reenter m' h')
      with Some hk have eq: "hook_or (snd (fancyError_defaults st)) h = Some (Hook name (Reenter m' h'))"
        by simp
      obtain e st4 where run: "fancyError cfg sy rt (hook_entry cfg sy rt st m name) m' h' = (e, st4)"
        by (cases "fancyError cfg sy rt (hook_entry cfg sy rt st m name) m' h'")
      have inner: "expected_ending (hook_or None h') =
                     (case arg_escaping h' of None \<Rightarrow> Exit 1 | Some x \<Rightarrow> Propagates x)"
        by (cases h') simp_all
      from call [OF eq] run inner
      have e: "e = (case arg_escaping h' of None \<Rightarrow> Exit 1 | Some x \<Rightarrow> Propagates x)"
        by simp
      show ?thesis
      proof (cases "arg_escaping h'")
        case None
        with e eq run show ?thesis
          by (simp add: fancyError_with_hook)
      next
        case (Some x)
        with escaping_BaseExc(3) obtain cls msg where "x = BaseExc cls msg"
          by blast
        with Some e eq run show ?thesis
          by (simp add: fancyError_with_hook)
      qed
    qed
  qed
qed

lemma fancyErrorString_plain:
  "fancyErrorString runtime_plain = ''Traceback (most recent call last):\<newline>''"
  by (simp add: fancyErrorString_def runtime_plain_def fancy_def)

lemma critical_first:
  "critical default_configs sys_no_tty ''first'' Omitted Omitted = ''(!) first''"
  by code_simp

text \<open>
  Claim C6, as stated, fails.  Nothing in \<^verbatim>\<open>fancyError\<close> tests whether it has run before:
  the one-shot step only resets the default arguments.  A hook that calls
  \<^verbatim>\<open>fancyError("again", hook)\<close> has its message written and its hook invoked again; and a hook
  interrupted by \<^verbatim>\<open>KeyboardInterrupt\<close> leaves the call with that exception, before
  \<^verbatim>\<open>os._exit(1)\<close>.
\<close>

theorem one_shot_counterexample:
  "fancyError default_configs sys_no_tty runtime_plain process_start (Given (Some ''first''))
     (HookGiven cleanup_reenters_with_arguments) =
     (Exit 1,
      \<lparr>stderr_written =
         [''(!) first'', ''Traceback (most recent call last):\<newline>'',
          ''(!) again'', ''Traceback (most recent call last):\<newline>''],
       fancyError_defaults = (None, None),
       hooks_invoked = [''cleanup'', ''cleanup'']\<rparr>) \<and>
   fancyError default_configs sys_no_tty runtime_plain process_start Omitted
     (HookGiven cleanup_interrupted) =
     (Propagates (BaseExc ''KeyboardInterrupt'' []),
      \<lparr>stderr_written = [''Traceback (most recent call last):\<newline>''],
       fancyError_defaults = (None, None),
       hooks_invoked = [''cleanup'']\<rparr>)"
  by code_simp

text \<open>
  Claim C6, amended.  A call that has a hook (given, or from the defaults) leaves
  \<^verbatim>\<open>fancyError.__defaults__\<close> at \<^verbatim>\<open>(None, None)\<close>.  From then on a call with no argument writes
  the traceback only, invokes no hook and exits with status 1; so when the hook re-enters with
  no argument, the hook is invoked once, the message written once, and the process exits with
  status 1.  Every call ends in exit status 1, unless an exception not derived from
  \<^verbatim>\<open>Exception\<close> comes out of a hook, which then leaves the call.
\<close>

theorem fancyError_one_shot:
  "(hook_or (snd (fancyError_defaults st)) singleton_hook \<noteq> None \<longrightarrow>
      fancyError_defaults (snd (fancyError cfg sy rt st critical_msg singleton_hook)) = (None, None)) \<and>
   (fancyError_defaults st = (None, None) \<longrightarrow>
      fancyError cfg sy rt st Omitted HookOmitted =
        (Exit 1, st\<lparr>stderr_written := stderr_written st @ [fancyErrorString rt]\<rparr>)) \<and>
   (hook_or (snd (fancyError_defaults st)) singleton_hook =
      Some (Hook name (Reenter Omitted HookOmitted)) \<longrightarrow>
      fancyError cfg sy rt st critical_msg singleton_hook =
        (Exit 1,
         st\<lparr>stderr_written :=
              stderr_written st @
              (if truthy_str (arg_or (fst (fancyError_defaults st)) critical_msg)
               then [critical cfg sy (the (arg_or (fst (fancyError_defaults st)) critical_msg))
                       Omitted Omitted]
               else []) @
              [fancyErrorString rt, fancyErrorString rt],
            fancyError_defaults := (None, None),
            hooks_invoked := hooks_invoked st @ [name]\<rparr>)) \<and>
   fst (fancyError cfg sy rt st critical_msg singleton_hook) =
     expected_ending (hook_or (snd (fancyError_defaults st)) singleton_hook)"
proof (intro conjI impI)
  assume "hook_or (snd (fancyError_defaults st)) singleton_hook \<noteq> None"
  then show "fancyError_defaults (snd (fancyError cfg sy rt st critical_msg singleton_hook)) =
               (None, None)"
    by (auto simp: fancyError_defaults_after)
next
  assume "fancyError_defaults st = (None, None)"
  then show "fancyError cfg sy rt st Omitted HookOmitted =
               (Exit 1, st\<lparr>stderr_written := stderr_written st @ [fancyErrorString rt]\<rparr>)"
    by (simp add: fancyError_no_hook reported_def stderr_write_def)
next
  assume hk: "hook_or (snd (fancyError_defaults st)) singleton_hook =
                Some (Hook name (Reenter Omitted HookOmitted))"
  have inner: "fancyError cfg sy rt (hook_entry cfg sy rt st critical_msg name) Omitted HookOmitted =
                 (Exit 1, reported cfg sy rt (hook_entry cfg sy rt st critical_msg name) Omitted)"
    by (rule fancyError_no_hook) simp
  show "fancyError cfg sy rt st critical_msg singleton_hook =
        (Exit 1,
         st\<lparr>stderr_written :=
              stderr_written st @
              (if truthy_str (arg_or (fst (fancyError_defaults st)) critical_msg)
               then [critical cfg sy (the (arg_or (fst (fancyError_defaults st)) critical_msg))
                       Omitted Omitted]
               else []) @
              [fancyErrorString rt, fancyErrorString rt],
            fancyError_defaults := (None, None),
            hooks_invoked := hooks_invoked st @ [name]\<rparr>)"
    by (simp add: fancyError_with_hook [OF hk] inner)
       (simp add: reported_def hook_entry_def stderr_write_def Let_def)
next
  show "fst (fancyError cfg sy rt st critical_msg singleton_hook) =
          expected_ending (hook_or (snd (fancyError_defaults st)) singleton_hook)"
    by (rule fancyError_ending)
qed

theorem fancyError_one_shot_witness:
  "hook_or (snd (fancyError_defaults process_start)) (HookGiven cleanup_reenters) \<noteq> None \<and>
   fancyError_defaults
     (snd (fancyError default_configs sys_no_tty runtime_plain process_start
             (Given (Some ''first'')) (HookGiven cleanup_reenters))) = (None, None) \<and>
   fancyError_defaults process_start = (None, None) \<and>
   fancyError default_configs sys_no_tty runtime_plain process_start Omitted HookOmitted =
     (Exit 1,
      \<lparr>stderr_written = [''Traceback (most recent call last):\<newline>''],
       fancyError_defaults = (None, None), hooks_invoked = []\<rparr>) \<and>
   hook_or (snd (fancyError_defaults process_start)) (HookGiven cleanup_reenters) =
     Some (Hook ''cleanup'' (Reenter Omitted HookOmitted)) \<and>
   fancyError default_configs sys_no_tty runtime_plain process_start (Given (Some ''first''))
     (HookGiven cleanup_reenters) =
     (Exit 1,
      \<lparr>stderr_written =
         [''(!) first'', ''Traceback (most recent call last):\<newline>'',
          ''Traceback (most recent call last):\<newline>''],
       fancyError_defaults = (None, None), hooks_invoked = [''cleanup'']\<rparr>)"
proof -
  note inst = fancyError_one_shot
    [where st = process_start and cfg = default_configs and sy = sys_no_tty
       and rt = runtime_plain and singleton_hook = "HookGiven cleanup_reenters"
       and critical_msg = "Given (Some ''first'')" and name = "''cleanup''"]
  have h1: "hook_or (snd (fancyError_defaults process_start)) (HookGiven cleanup_reenters) \<noteq> None"
    by simp
  have h2: "fancyError_defaults process_start = (None, None)"
    by (simp add: process_start_def)
  have h3: "hook_or (snd (fancyError_defaults process_start)) (HookGiven cleanup_reenters) =
              Some (Hook ''cleanup'' (Reenter Omitted HookOmitted))"
    by (simp add: cleanup_reenters_def)
  note c1 = inst [THEN conjunct1, rule_format, OF h1]
  note c2 = inst [THEN conjunct2, THEN conjunct1, rule_format, OF h2]
  note c3 = inst [THEN conjunct2, THEN conjunct2, THEN conjunct1, rule_format, OF h3]
  have e2: "fancyError default_configs sys_no_tty runtime_plain process_start Omitted HookOmitted =
     (Exit 1,
      \<lparr>stderr_written = [''Traceback (most recent call last):\<newline>''],
       fancyError_defaults = (None, None), hooks_invoked = []\<rparr>)"
    using c2 by (simp add: process_start_def fancyErrorString_plain)
  have e3: "fancyError default_configs sys_no_tty runtime_plain process_start (Given (Some ''first''))
     (HookGiven cleanup_reenters) =
     (Exit 1,
      \<lparr>stderr_written =
         [''(!) first'', ''Traceback (most recent call last):\<newline>'',
          ''Traceback (most recent call last):\<newline>''],
       fancyError_defaults = (None, None), hooks_invoked = [''cleanup'']\<rparr>)"
    using c3 by (simp add: process_start_def fancyErrorString_plain critical_first)
  from h1 c1 h2 e2 h3 e3 show ?thesis
    by (simp only: simp_thms)
qed

end
